theory Spec2Isabelle
  imports Complex_Main "HOL-Library.Log_Nat"
begin

section \<open>Exceptions and floats of the Python runtime\<close>

text \<open>
  The script \<open>script/reward_rate.py\<close> reads two lines, parses them as floats, and
  computes three integers. The exceptions it can raise all come from the builtins.
\<close>

datatype error = ValueError | OverflowError | ZeroDivisionError

text \<open>
  A Python \<open>float\<close> is an IEEE 754 binary64 number. \<open>Finite s m e\<close> stands for
  \<open>(-1)^s * m * 2^e\<close>; the values that exist as doubles are those with \<open>is_binary64 m e\<close>.
  The two zeros are \<open>Finite False 0 (-1074)\<close> and \<open>Finite True 0 (-1074)\<close>. The sign and
  payload of a NaN cannot be observed by this program, so there is one NaN.
\<close>

datatype pyfloat = Finite bool nat int | Infty bool | NaN



subsection \<open>Rounding to nearest, ties to even\<close>

definition round_half_even :: "nat \<Rightarrow> nat \<Rightarrow> nat" where
  \<comment> \<open>the integer nearest to \<open>n / d\<close>, the even one of two equally near\<close>
  "round_half_even n d =
     (if 2 * (n mod d) < d then n div d
      else if d < 2 * (n mod d) then n div d + 1
      else if even (n div d) then n div d else n div d + 1)"

definition ge_pow2 :: "nat \<Rightarrow> nat \<Rightarrow> int \<Rightarrow> bool" where
  \<comment> \<open>\<open>2^k \<le> n / d\<close>\<close>
  "ge_pow2 n d k = (if 0 \<le> k then d * 2 ^ nat k \<le> n else d \<le> n * 2 ^ nat (- k))"

definition floor_log2 :: "nat \<Rightarrow> nat \<Rightarrow> int" where
  \<comment> \<open>for \<open>0 < n\<close> and \<open>0 < d\<close>: the \<open>k\<close> with \<open>2^k \<le> n / d < 2^(k + 1)\<close>, found from
      the bit lengths of \<open>n\<close> and \<open>d\<close>\<close>
  "floor_log2 n d =
     (if ge_pow2 n d (int (floorlog 2 n) - int (floorlog 2 d))
      then int (floorlog 2 n) - int (floorlog 2 d)
      else int (floorlog 2 n) - int (floorlog 2 d) - 1)"

definition quantum :: "nat \<Rightarrow> nat \<Rightarrow> int" where
  \<comment> \<open>the exponent of the last place of the doubles around \<open>n / d\<close>: 53 significant
      bits, and never below the subnormal spacing \<open>2^-1074\<close>\<close>
  "quantum n d = max (floor_log2 n d - 52) (- 1074)"

definition round_at :: "nat \<Rightarrow> nat \<Rightarrow> int \<Rightarrow> nat" where
  \<comment> \<open>\<open>n / d\<close> as a multiple of \<open>2^q\<close>, rounded to nearest, ties to even\<close>
  "round_at n d q =
     (if 0 \<le> q then round_half_even n (d * 2 ^ nat q) else round_half_even (n * 2 ^ nat (- q)) d)"

definition renormalise :: "nat \<Rightarrow> int \<Rightarrow> (nat \<times> int) option" where
  \<comment> \<open>a significand rounded up to \<open>2^53\<close> moves to the next binade; a result beyond the
      largest double \<open>(2^53 - 1) * 2^971\<close> overflows\<close>
  "renormalise m q =
     (if m = 2 ^ 53 then (if 971 < q + 1 then None else Some (2 ^ 52, q + 1))
      else if 971 < q then None else Some (m, q))"

definition round_binary64 :: "nat \<Rightarrow> nat \<Rightarrow> (nat \<times> int) option" where
  \<comment> \<open>the double \<open>m * 2^e\<close> nearest to \<open>n / d\<close> (\<open>0 < d\<close>); \<open>None\<close> when it overflows\<close>
  "round_binary64 n d =
     (if n = 0 then Some (0, - 1074)
      else renormalise (round_at n d (quantum n d)) (quantum n d))"

definition round_float :: "bool \<Rightarrow> nat \<Rightarrow> nat \<Rightarrow> pyfloat" where
  \<comment> \<open>the result of an arithmetic operation whose exact value is \<open>(-1)^s * n / d\<close>\<close>
  "round_float s n d =
     (case round_binary64 n d of None \<Rightarrow> Infty s | Some (m, e) \<Rightarrow> Finite s m e)"

definition scaled :: "bool \<Rightarrow> nat \<Rightarrow> nat \<Rightarrow> int \<Rightarrow> pyfloat" where
  \<comment> \<open>exact value \<open>(-1)^s * (n / d) * 2^k\<close>\<close>
  "scaled s n d k =
     (if 0 \<le> k then round_float s (n * 2 ^ nat k) d else round_float s n (d * 2 ^ nat (- k)))"

subsection \<open>Float arithmetic\<close>

fun float_mul :: "pyfloat \<Rightarrow> pyfloat \<Rightarrow> pyfloat" where
  "float_mul NaN _ = NaN"
| "float_mul _ NaN = NaN"
| "float_mul (Infty s) (Infty t) = Infty (s \<noteq> t)"
| "float_mul (Infty s) (Finite t m e) = (if m = 0 then NaN else Infty (s \<noteq> t))"
| "float_mul (Finite s m e) (Infty t) = (if m = 0 then NaN else Infty (s \<noteq> t))"
| "float_mul (Finite s m e) (Finite t m' e') = scaled (s \<noteq> t) (m * m') 1 (e + e')"

fun float_truediv :: "pyfloat \<Rightarrow> pyfloat \<Rightarrow> error + pyfloat" where
  "float_truediv x (Finite t m' e') =
     (if m' = 0 then Inl ZeroDivisionError
      else case x of
          NaN \<Rightarrow> Inr NaN
        | Infty s \<Rightarrow> Inr (Infty (s \<noteq> t))
        | Finite s m e \<Rightarrow> Inr (scaled (s \<noteq> t) m m' (e - e')))"
| "float_truediv x NaN = Inr NaN"
| "float_truediv x (Infty t) =
     (case x of Finite s m e \<Rightarrow> Inr (Finite (s \<noteq> t) 0 (- 1074)) | _ \<Rightarrow> Inr NaN)"

subsection \<open>Conversions between \<open>int\<close> and \<open>float\<close>\<close>

definition float_of_int :: "int \<Rightarrow> error + pyfloat" where
  \<comment> \<open>the conversion of an \<open>int\<close> operand of a float operation; it rounds, and raises
      \<open>OverflowError\<close> when the integer is too large\<close>
  "float_of_int i =
     (case round_binary64 (nat \<bar>i\<bar>) 1 of
        None \<Rightarrow> Inl OverflowError
      | Some (m, e) \<Rightarrow> Inr (Finite (i < 0) m e))"

fun int_of_float :: "pyfloat \<Rightarrow> error + int" where
  \<comment> \<open>\<open>int(x)\<close>: truncation toward zero\<close>
  "int_of_float NaN = Inl ValueError"
| "int_of_float (Infty s) = Inl OverflowError"
| "int_of_float (Finite s m e) =
     Inr ((if s then - 1 else 1) * int (if 0 \<le> e then m * 2 ^ nat e else m div 2 ^ nat (- e)))"

definition float_mul_int :: "pyfloat \<Rightarrow> int \<Rightarrow> error + pyfloat" where
  \<comment> \<open>\<open>x * i\<close> with \<open>x\<close> a float and \<open>i\<close> an int\<close>
  "float_mul_int x i = (case float_of_int i of Inl err \<Rightarrow> Inl err | Inr y \<Rightarrow> Inr (float_mul x y))"

definition int_mul_float :: "int \<Rightarrow> pyfloat \<Rightarrow> error + pyfloat" where
  \<comment> \<open>\<open>i * x\<close> with \<open>i\<close> an int and \<open>x\<close> a float\<close>
  "int_mul_float i x = (case float_of_int i of Inl err \<Rightarrow> Inl err | Inr y \<Rightarrow> Inr (float_mul y x))"

section \<open>Strings\<close>

text \<open>
  A Python \<open>str\<close> is a sequence of code points; the model covers the code points below
  256, one \<open>char\<close> each.
\<close>

definition code :: "char \<Rightarrow> nat" where
  "code c = of_char c"

definition py_isspace :: "char \<Rightarrow> bool" where
  \<comment> \<open>the characters that \<open>str.strip()\<close> removes: tab to carriage return, the four
      separators \<open>0x1c\<close> to \<open>0x1f\<close>, space, next line and no-break space\<close>
  "py_isspace c \<longleftrightarrow>
     (9 \<le> code c \<and> code c \<le> 13) \<or> (28 \<le> code c \<and> code c \<le> 32) \<or> code c = 133 \<or> code c = 160"

definition strip :: "string \<Rightarrow> string" where
  "strip s = rev (dropWhile py_isspace (rev (dropWhile py_isspace s)))"

definition endswith :: "string \<Rightarrow> string \<Rightarrow> bool" where
  "endswith s t \<longleftrightarrow> length t \<le> length s \<and> drop (length s - length t) s = t"

definition is_digit :: "char \<Rightarrow> bool" where
  "is_digit c \<longleftrightarrow> 48 \<le> code c \<and> code c \<le> 57"

definition digit_val :: "char \<Rightarrow> nat" where
  "digit_val c = code c - 48"

definition digits_val :: "string \<Rightarrow> nat" where
  "digits_val ds = foldl (\<lambda>a c. 10 * a + digit_val c) 0 ds"

section \<open>The builtin \<open>float\<close> on a string\<close>

text \<open>
  \<open>float(s)\<close> accepts, between optional whitespace, an optional sign followed by
  \<open>inf\<close>, \<open>infinity\<close> or \<open>nan\<close> in any letter case, or by a decimal numeral
  with an optional point and an optional exponent; single underscores may stand between
  digits. The value is the double nearest to the numeral (ties to even), an infinity when
  that is out of range. Everything else raises \<open>ValueError\<close>. The value is taken
  exactly: the limits of the runtime on texts of \<open>10^9\<close> digits or more are left out.
\<close>

fun ascii_spaces :: "string \<Rightarrow> string" where
  \<comment> \<open>a string with a non-ASCII character is first rewritten: whitespace beyond ASCII
      becomes a space, and the text is cut at any other character from 127 on, which
      is replaced by a question mark\<close>
  "ascii_spaces [] = []"
| "ascii_spaces (c # cs) =
     (if code c < 127 then c # ascii_spaces cs
      else if py_isspace c then CHR '' '' # ascii_spaces cs
      else [CHR ''?''])"

definition to_ascii :: "string \<Rightarrow> string" where
  "to_ascii s = (if list_all (\<lambda>c. code c < 128) s then s else ascii_spaces s)"

fun drop_underscores :: "char \<Rightarrow> string \<Rightarrow> string option" where
  \<comment> \<open>an underscore is allowed only after a digit and before a digit; the first
      argument is the previous character\<close>
  "drop_underscores prev [] = (if prev = CHR ''_'' then None else Some [])"
| "drop_underscores prev (c # cs) =
     (if c = CHR ''_'' then (if is_digit prev then drop_underscores c cs else None)
      else if prev = CHR ''_'' \<and> \<not> is_digit c then None
      else map_option ((#) c) (drop_underscores c cs))"

definition c_isspace :: "char \<Rightarrow> bool" where
  \<comment> \<open>the whitespace of the parser proper: tab to carriage return, and space\<close>
  "c_isspace c \<longleftrightarrow> (9 \<le> code c \<and> code c \<le> 13) \<or> code c = 32"

definition c_strip :: "string \<Rightarrow> string" where
  "c_strip s = rev (dropWhile c_isspace (rev (dropWhile c_isspace s)))"

fun is_negative :: "string \<Rightarrow> bool" where
  "is_negative (c # cs) = (c = CHR ''-'')"
| "is_negative [] = False"

fun after_sign :: "string \<Rightarrow> string" where
  "after_sign (c # cs) = (if c = CHR ''-'' \<or> c = CHR ''+'' then cs else c # cs)"
| "after_sign [] = []"

definition to_lower :: "char \<Rightarrow> char" where
  \<comment> \<open>the lower-case table of the parser: only \<open>A\<close> to \<open>Z\<close> change\<close>
  "to_lower c =
     (if 65 \<le> code c \<and> code c \<le> 90 then ''abcdefghijklmnopqrstuvwxyz'' ! (code c - 65) else c)"

definition parse_inf_or_nan :: "string \<Rightarrow> (pyfloat \<times> string) option" where
  \<comment> \<open>the value and the unread rest\<close>
  "parse_inf_or_nan s =
     (if map to_lower (take 3 (after_sign s)) = ''inf'' then
        (if map to_lower (take 5 (drop 3 (after_sign s))) = ''inity''
         then Some (Infty (is_negative s), drop 8 (after_sign s))
         else Some (Infty (is_negative s), drop 3 (after_sign s)))
      else if map to_lower (take 3 (after_sign s)) = ''nan'' then Some (NaN, drop 3 (after_sign s))
      else None)"

fun after_point :: "string \<Rightarrow> string" where
  \<comment> \<open>the text behind a decimal point, if the text starts with one\<close>
  "after_point (c # cs) = (if c = CHR ''.'' then cs else [])"
| "after_point [] = []"

fun skip_fraction :: "string \<Rightarrow> string" where
  "skip_fraction (c # cs) = (if c = CHR ''.'' then dropWhile is_digit cs else c # cs)"
| "skip_fraction [] = []"

fun has_exponent :: "string \<Rightarrow> bool" where
  \<comment> \<open>an exponent is \<open>e\<close> or \<open>E\<close>, an optional sign and at least one digit\<close>
  "has_exponent (c # cs) =
     ((c = CHR ''e'' \<or> c = CHR ''E'') \<and> takeWhile is_digit (after_sign cs) \<noteq> [])"
| "has_exponent [] = False"

definition exponent_val :: "string \<Rightarrow> int" where
  "exponent_val s =
     (if has_exponent s
      then (if is_negative (tl s) then - 1 else 1) * int (digits_val (takeWhile is_digit (after_sign (tl s))))
      else 0)"

definition skip_exponent :: "string \<Rightarrow> string" where
  "skip_exponent s = (if has_exponent s then dropWhile is_digit (after_sign (tl s)) else s)"

definition decimal_float :: "bool \<Rightarrow> nat \<Rightarrow> int \<Rightarrow> pyfloat" where
  \<comment> \<open>the double nearest to \<open>(-1)^s * n * 10^k\<close>\<close>
  "decimal_float s n k =
     (if 0 \<le> k then round_float s (n * 10 ^ nat k) 1 else round_float s n (10 ^ nat (- k)))"

definition int_digits :: "string \<Rightarrow> string" where
  "int_digits s = takeWhile is_digit (after_sign s)"

definition frac_digits :: "string \<Rightarrow> string" where
  "frac_digits s = takeWhile is_digit (after_point (dropWhile is_digit (after_sign s)))"

definition parse_number :: "string \<Rightarrow> (pyfloat \<times> string) option" where
  \<comment> \<open>the value and the unread rest; \<open>None\<close> when there is no digit\<close>
  "parse_number s =
     (if int_digits s = [] \<and> frac_digits s = [] then None
      else Some
        (decimal_float (is_negative s) (digits_val (int_digits s @ frac_digits s))
           (exponent_val (skip_fraction (dropWhile is_digit (after_sign s)))
              - int (length (frac_digits s))),
         skip_exponent (skip_fraction (dropWhile is_digit (after_sign s)))))"

definition string_to_double :: "string \<Rightarrow> (pyfloat \<times> string) option" where
  "string_to_double s = (case parse_number s of Some r \<Rightarrow> Some r | None \<Rightarrow> parse_inf_or_nan s)"

definition float_from_string_inner :: "string \<Rightarrow> error + pyfloat" where
  "float_from_string_inner s =
     (case string_to_double (c_strip s) of
        None \<Rightarrow> Inl ValueError
      | Some (x, rest) \<Rightarrow> if rest = [] then Inr x else Inl ValueError)"

definition py_float :: "string \<Rightarrow> error + pyfloat" where
  \<comment> \<open>\<open>float(s)\<close> for a string \<open>s\<close>\<close>
  "py_float s =
     (if CHR ''_'' \<notin> set (to_ascii s) then float_from_string_inner (to_ascii s)
      else case drop_underscores (CHR 0x00) (to_ascii s) of
          None \<Rightarrow> Inl ValueError
        | Some t \<Rightarrow> float_from_string_inner t)"

section \<open>The script\<close>

definition SECONDS_PER_YEAR :: int where
  "SECONDS_PER_YEAR = 31536000"

definition WEI_PER_ETH :: int where
  "WEI_PER_ETH = 10 ^ 18"

definition float_100 :: pyfloat where
  \<comment> \<open>the literal \<open>100.0\<close>, which is \<open>7036874417766400 / 2^46\<close>\<close>
  "float_100 = Finite False 7036874417766400 (- 46)"

definition percent_text :: "string \<Rightarrow> string" where
  \<comment> \<open>the first three lines of \<open>parse_percent\<close>: the text handed to \<open>float\<close>\<close>
  "percent_text s = (if endswith (strip s) ''%'' then strip (butlast (strip s)) else strip s)"

definition parse_percent :: "string \<Rightarrow> error + pyfloat" where
  "parse_percent s =
     (case py_float (percent_text s) of
        Inl err \<Rightarrow> Inl err
      | Inr x \<Rightarrow> float_truediv x float_100)"

definition tvl_wei_of :: "pyfloat \<Rightarrow> error + int" where
  \<comment> \<open>\<open>int(tvl_eth * WEI_PER_ETH)\<close>\<close>
  "tvl_wei_of tvl_eth =
     (case float_mul_int tvl_eth WEI_PER_ETH of Inl err \<Rightarrow> Inl err | Inr p \<Rightarrow> int_of_float p)"

definition annual_rewards_of :: "int \<Rightarrow> pyfloat \<Rightarrow> error + int" where
  \<comment> \<open>\<open>int(tvl_wei * apy)\<close>\<close>
  "annual_rewards_of tvl_wei apy =
     (case int_mul_float tvl_wei apy of Inl err \<Rightarrow> Inl err | Inr p \<Rightarrow> int_of_float p)"

definition reward_rate_of :: "int \<Rightarrow> int" where
  \<comment> \<open>\<open>annual_rewards_wei // SECONDS_PER_YEAR\<close>; \<open>//\<close> on integers is \<open>div\<close>\<close>
  "reward_rate_of annual_rewards_wei = annual_rewards_wei div SECONDS_PER_YEAR"

subsection \<open>Printing\<close>

fun decimal :: "nat \<Rightarrow> string" where
  "decimal n = (if n < 10 then [''0123456789'' ! n] else decimal (n div 10) @ [''0123456789'' ! (n mod 10)])"

declare decimal.simps [simp del]

definition str_int :: "int \<Rightarrow> string" where
  \<comment> \<open>\<open>str(i)\<close> for an integer\<close>
  "str_int i = (if i < 0 then CHR ''-'' # decimal (nat (- i)) else decimal (nat i))"

fun join_spaces :: "string list \<Rightarrow> string" where
  "join_spaces [] = []"
| "join_spaces [a] = a"
| "join_spaces (a # b # bs) = a @ CHR '' '' # join_spaces (b # bs)"

definition py_print :: "string list \<Rightarrow> string" where
  \<comment> \<open>\<open>print(a, b, ...)\<close>: the arguments separated by one space, then a newline\<close>
  "py_print args = join_spaces args @ [CHR 0x0A]"

definition report :: "int \<Rightarrow> int \<Rightarrow> int \<Rightarrow> string" where
  \<comment> \<open>the four \<open>print\<close> calls of \<open>main\<close>\<close>
  "report tvl_wei annual_rewards_wei reward_rate_wei_per_sec =
     py_print [''tvl_wei:'', str_int tvl_wei]
     @ py_print [''annual_rewards_wei:'', str_int annual_rewards_wei]
     @ py_print [''rewardRate (wei/sec):'', str_int reward_rate_wei_per_sec]
     @ py_print [''addPool(address(0),'', str_int reward_rate_wei_per_sec, '')'']"

subsection \<open>\<open>main\<close>\<close>

text \<open>
  \<open>main\<close> takes the two lines that \<open>input\<close> returns. Its result holds the three local
  integers and the text written by the four \<open>print\<close> calls (the two prompts are written
  by \<open>input\<close> and are not part of it). An exception ends the run where it is raised.
\<close>

record run =
  tvl_wei :: int
  annual_rewards_wei :: int
  reward_rate_wei_per_sec :: int
  printed :: string

definition finish :: "int \<Rightarrow> int \<Rightarrow> run" where
  "finish tw ar =
     \<lparr>tvl_wei = tw, annual_rewards_wei = ar, reward_rate_wei_per_sec = reward_rate_of ar,
      printed = report tw ar (reward_rate_of ar)\<rparr>"

definition calculate :: "pyfloat \<Rightarrow> pyfloat \<Rightarrow> error + run" where
  \<comment> \<open>\<open>main\<close> from the two parsed inputs on\<close>
  "calculate tvl_eth apy =
     (case tvl_wei_of tvl_eth of
        Inl err \<Rightarrow> Inl err
      | Inr tw \<Rightarrow>
          (case annual_rewards_of tw apy of
             Inl err \<Rightarrow> Inl err
           | Inr ar \<Rightarrow> Inr (finish tw ar)))"

definition main :: "string \<Rightarrow> string \<Rightarrow> error + run" where
  "main line1 line2 =
     (case py_float (strip line1) of
        Inl err \<Rightarrow> Inl err
      | Inr tvl_eth \<Rightarrow>
          (case parse_percent line2 of
             Inl err \<Rightarrow> Inl err
           | Inr apy \<Rightarrow> calculate tvl_eth apy))"

definition integers :: "run \<Rightarrow> int \<times> int \<times> int" where
  \<comment> \<open>the three integers of a run, in the order they are computed\<close>
  "integers r = (tvl_wei r, annual_rewards_wei r, reward_rate_wei_per_sec r)"

section \<open>Notions used to state the properties\<close>






section \<open>Evaluation on numerals\<close>

lemma floorlog2_numeral [simp]:
  "floorlog 2 (numeral (Num.Bit0 n)) = floorlog 2 (numeral n) + 1"
  "floorlog 2 (numeral (Num.Bit1 n)) = floorlog 2 (numeral n) + 1"
  "floorlog 2 (Suc 0) = 1"
  "floorlog 2 1 = 1"
  "floorlog 2 0 = 0"
  by (subst compute_floorlog; simp)+

lemma floor_rat_numeral [simp]: "\<lfloor>numeral a / numeral b :: rat\<rfloor> = numeral a div numeral b"
  by (metis floor_divide_of_int_eq of_int_numeral)

lemmas round_eval =
  round_binary64_def floor_log2_def round_half_even_def round_float_def scaled_def
  ge_pow2_def quantum_def round_at_def renormalise_def
  float_of_int_def int_mul_float_def float_mul_int_def

lemmas string_eval =
  code_def py_isspace_def strip_def endswith_def is_digit_def digit_val_def digits_val_def
  to_ascii_def c_isspace_def c_strip_def to_lower_def parse_inf_or_nan_def exponent_val_def
  skip_exponent_def decimal_float_def int_digits_def frac_digits_def parse_number_def
  string_to_double_def float_from_string_inner_def py_float_def percent_text_def
  parse_percent_def float_100_def

lemmas main_eval =
  main_def calculate_def finish_def tvl_wei_of_def annual_rewards_of_def reward_rate_of_def
  SECONDS_PER_YEAR_def WEI_PER_ETH_def


section \<open>Rounding gives the nearest double\<close>




















section \<open>The scenarios\<close>

text \<open>
  C1 (as amended). With the lines \<open>1000.0\<close> and \<open>8%\<close> the run ends with
  \<open>tvl_wei = 1000000000000000000000\<close>, \<open>annual_rewards_wei = 80000000000000000000\<close>
  and \<open>reward_rate_wei_per_sec = 2536783358701\<close>, the floor of
  \<open>80000000000000000000 / 31536000\<close>.
\<close>

theorem scenario_a:
  "map_sum id integers (main ''1000.0'' ''8%'') =
     Inr (1000000000000000000000, 80000000000000000000, 2536783358701)"
  by (simp add: string_eval round_eval main_eval integers_def)

text \<open>
  C1 as stated gives the rate \<open>2536783358390576\<close> for the same two lines. The run does
  not end with that rate.
\<close>

theorem scenario_a_rate_counterexample:
  "map_sum id integers (main ''1000.0'' ''8%'') \<noteq>
     Inr (1000000000000000000000, 80000000000000000000, 2536783358390576)"
  by (simp add: string_eval round_eval main_eval integers_def)

text \<open>
  C8. With the lines \<open>1.0\<close> and \<open>100%\<close>, or \<open>1.0\<close> and \<open>100\<close>, the run ends with
  \<open>tvl_wei = 1000000000000000000\<close>, \<open>annual_rewards_wei = 1000000000000000000\<close> and
  \<open>reward_rate_wei_per_sec = 31709791983\<close>.
\<close>

theorem scenario_c:
  "map_sum id integers (main ''1.0'' ''100%'') =
     Inr (1000000000000000000, 1000000000000000000, 31709791983)
   \<and> map_sum id integers (main ''1.0'' ''100'') =
     Inr (1000000000000000000, 1000000000000000000, 31709791983)"
  by (simp add: string_eval round_eval main_eval integers_def)

section \<open>The rate is a floor division\<close>

text \<open>
  C2. For every non-negative \<open>annual_rewards_wei\<close> the rate is the floor of the quotient
  by 31536000: the largest integer whose product with 31536000 does not exceed the
  annual rewards. It is never rounded up.
\<close>

theorem reward_rate_floor:
  "0 \<le> a \<Longrightarrow>
     reward_rate_of a = \<lfloor>real_of_int a / 31536000\<rfloor>
     \<and> 0 \<le> reward_rate_of a
     \<and> reward_rate_of a * 31536000 \<le> a
     \<and> a < (reward_rate_of a + 1) * 31536000"
proof -
  assume nonneg: "0 \<le> a"
  have split: "a = a div 31536000 * 31536000 + a mod 31536000"
    by simp
  have low: "0 \<le> a mod 31536000" and high: "a mod 31536000 < 31536000"
    by simp_all
  have "a div 31536000 = \<lfloor>real_of_int a / 31536000\<rfloor>"
    using floor_divide_of_int_eq [of a 31536000, where ?'a = real] by simp
  moreover have "0 \<le> a div 31536000"
    using nonneg by (simp add: pos_imp_zdiv_nonneg_iff)
  moreover have "a div 31536000 * 31536000 \<le> a"
    using split low by linarith
  moreover have "a < (a div 31536000 + 1) * 31536000"
  proof -
    have "(a div 31536000 + 1) * 31536000 = a div 31536000 * 31536000 + 31536000"
      by (simp add: algebra_simps)
    then show ?thesis
      using split high by linarith
  qed
  ultimately show ?thesis
    by (simp add: reward_rate_of_def SECONDS_PER_YEAR_def)
qed

theorem reward_rate_floor_witness:
  "(0::int) \<le> 31535999 \<and> reward_rate_of 31535999 = 0
   \<and> reward_rate_of 31535999 = \<lfloor>real_of_int 31535999 / 31536000\<rfloor>"
  using reward_rate_floor [of 31535999] by (simp add: reward_rate_of_def SECONDS_PER_YEAR_def)

text \<open>
  C10. For every \<open>annual_rewards_wei\<close> strictly between \<open>-31536000\<close> and 0 the rate is
  \<open>-1\<close>: the division rounds toward negative infinity, where truncation would give 0.
\<close>

theorem reward_rate_small_negative:
  "- 31536000 < a \<Longrightarrow> a < 0 \<Longrightarrow> reward_rate_of a = - 1"
proof -
  assume bounds: "- 31536000 < a" "a < 0"
  have split: "a = a div 31536000 * 31536000 + a mod 31536000"
    by simp
  have low: "0 \<le> a mod 31536000" and high: "a mod 31536000 < 31536000"
    by simp_all
  have "a div 31536000 < 0"
    using split low bounds by linarith
  moreover have "- 2 < a div 31536000"
    using split high bounds by linarith
  ultimately have "a div 31536000 = - 1"
    by linarith
  then show ?thesis
    by (simp add: reward_rate_of_def SECONDS_PER_YEAR_def)
qed

theorem reward_rate_small_negative_witness:
  "- 31536000 < (- 1 :: int) \<and> (- 1 :: int) < 0 \<and> reward_rate_of (- 1) = - 1"
  using reward_rate_small_negative [of "- 1"] by simp

section \<open>What \<open>parse_percent\<close> accepts\<close>

text \<open>
  C9. \<open>parse_percent\<close> returns a value on texts that are not decimal numerals:
  \<open>inf\<close> gives infinity (infinity divided by 100), \<open>nan\<close> gives a NaN, and \<open>1_0%\<close>, with
  an underscore between the digits, gives the double \<open>0.1\<close>.
\<close>

theorem parse_percent_inf_nan_underscore:
  "parse_percent ''inf'' = Inr (Infty False)
   \<and> parse_percent ''nan'' = Inr NaN
   \<and> parse_percent ''1_0%'' = py_float ''0.1''
   \<and> py_float ''0.1'' = Inr (Finite False 7205759403792794 (- 56))"
  by (simp add: string_eval round_eval)

section \<open>Whitespace and the percent sign\<close>

lemma strip_pad:
  assumes "list_all py_isspace a" "list_all py_isspace b"
  shows "strip (a @ s @ b) = strip s"
proof -
  have l: "dropWhile py_isspace (a @ s @ b) = dropWhile py_isspace (s @ b)"
    using assms(1) by (simp add: list_all_iff dropWhile_append)
  have r: "dropWhile py_isspace (rev (x @ b)) = dropWhile py_isspace (rev x)" for x
    using assms(2) by (simp add: list_all_iff dropWhile_append)
  show ?thesis
  proof (cases "\<forall>c\<in>set s. py_isspace c")
    case True
    then have e1: "dropWhile py_isspace (s @ b) = []" and e2: "dropWhile py_isspace s = []"
      using assms(2) by (auto simp: list_all_iff)
    show ?thesis unfolding strip_def l e1 e2 by simp
  next
    case False
    then have "dropWhile py_isspace (s @ b) = dropWhile py_isspace s @ b"
      by (auto simp: dropWhile_append)
    then show ?thesis
      using r [of "dropWhile py_isspace s"] by (simp add: strip_def l)
  qed
qed

lemma percent_not_space: "\<not> py_isspace CHR ''%''"
  by (simp add: py_isspace_def code_def)

lemma strip_percent: "strip (x @ ''%'') = dropWhile py_isspace x @ ''%''"
  by (simp add: strip_def dropWhile_append percent_not_space)

lemma strip_lstrip: "strip (dropWhile py_isspace x) = strip x"
  by (simp add: strip_def)

lemma endswith_percent: "endswith (x @ ''%'') ''%''"
  by (simp add: endswith_def)

lemma percent_text_pad:
  assumes "list_all py_isspace a" "list_all py_isspace b"
  shows "percent_text (a @ s @ b) = percent_text s"
  by (simp add: percent_text_def strip_pad [OF assms])

lemma percent_text_suffix:
  assumes "list_all py_isspace a" "list_all py_isspace b" "list_all py_isspace c"
    and "\<not> endswith (strip s) ''%''"
  shows "percent_text (a @ s @ b @ ''%'' @ c) = percent_text s"
proof -
  have "strip (a @ s @ b @ ''%'' @ c) = strip ((s @ b) @ ''%'')"
    using strip_pad [OF assms(1) assms(3), of "s @ b @ ''%''"] by simp
  also have "\<dots> = dropWhile py_isspace (s @ b) @ ''%''"
    by (rule strip_percent)
  finally have st: "strip (a @ s @ b @ ''%'' @ c) = dropWhile py_isspace (s @ b) @ ''%''" .
  have "percent_text (a @ s @ b @ ''%'' @ c) = strip (dropWhile py_isspace (s @ b))"
    unfolding percent_text_def st using endswith_percent by simp
  also have "\<dots> = strip ([] @ s @ b)"
    by (simp add: strip_lstrip)
  also have "\<dots> = strip s"
    by (rule strip_pad) (simp_all add: assms(2))
  finally show ?thesis
    using assms(4) by (simp add: percent_text_def)
qed

text \<open>
  C3. \<open>parse_percent\<close> returns the double \<open>0.08\<close> for \<open>8\<close>, for \<open>8%\<close> and for
  \<open>8 %\<close> between spaces. In general whitespace around a text does not change the result,
  and neither does a percent sign, with whitespace around it, behind a text that does not
  itself end in a percent sign.
\<close>

theorem parse_percent_eight:
  assumes "list_all py_isspace a" "list_all py_isspace b" "list_all py_isspace c"
  shows "parse_percent ''8'' = py_float ''0.08''
     \<and> parse_percent ''8%'' = py_float ''0.08''
     \<and> parse_percent ''  8 % '' = py_float ''0.08''
     \<and> py_float ''0.08'' = Inr (Finite False 5764607523034235 (- 56))
     \<and> parse_percent (a @ s @ b) = parse_percent s
     \<and> (\<not> endswith (strip s) ''%'' \<longrightarrow> parse_percent (a @ s @ b @ ''%'' @ c) = parse_percent s)"
proof -
  have "parse_percent ''8'' = py_float ''0.08''"
    by (simp add: string_eval round_eval)
  moreover have "parse_percent ''8%'' = py_float ''0.08''"
    by (simp add: string_eval round_eval)
  moreover have "parse_percent ''  8 % '' = py_float ''0.08''"
    by (simp add: string_eval round_eval)
  moreover have "py_float ''0.08'' = Inr (Finite False 5764607523034235 (- 56))"
    by (simp add: string_eval round_eval)
  moreover have "parse_percent (a @ s @ b) = parse_percent s"
    by (simp add: parse_percent_def percent_text_pad [OF assms(1,2)])
  moreover have "parse_percent (a @ s @ b @ ''%'' @ c) = parse_percent s"
    if "\<not> endswith (strip s) ''%''"
    by (simp only: parse_percent_def percent_text_suffix [OF assms that])
  ultimately show ?thesis by blast
qed

theorem parse_percent_eight_witness: "list_all py_isspace ''  '' \<and> list_all py_isspace '' '' \<and> \<not> endswith (strip ''8'') ''%''
  \<and> parse_percent (''  '' @ ''8'' @ '' '' @ ''%'' @ '' '') = parse_percent ''8''
  \<and> parse_percent (''  '' @ ''8'' @ '' '') = parse_percent ''8''"
  using parse_percent_eight [of "''  ''" "'' ''" "'' ''" "''8''"] by (simp add: py_isspace_def code_def strip_def endswith_def)

section \<open>The printed text\<close>




section \<open>The two float products\<close>















section \<open>A negative TVL\<close>











section \<open>What \<open>parse_percent\<close> rejects\<close>







lemma set_c_strip: "set (c_strip s) \<subseteq> set s"
  by (auto simp: c_strip_def dest!: set_dropWhileD)































end
